theory Spec2Isabelle
  imports Main
begin

section \<open>Values\<close>

text \<open>
  The server handles JSON-shaped Python values: tool arguments, the decoded reply of the
  remote API and the records inside it. A Python \<open>dict\<close> is an association list in
  insertion order whose keys are distinct; lookup is \<open>map_of\<close>. A Python \<open>str\<close> is a
  sequence of code points; the model writes one \<open>char\<close> per code point, so it covers the
  code points below 256. JSON numbers with a fractional part are not modelled.
\<close>

datatype json =
    JNull
  | JBool bool
  | JInt int
  | JStr string
  | JList "json list"
  | JObj "(string \<times> json) list"

type_synonym pydict = "(string \<times> json) list"

subsection \<open>Exceptions\<close>

text \<open>
  \<open>AICAPIError\<close> is the class of the source. The other constructors are the built-in
  exceptions the modelled code can raise, each with the text of \<open>str(e)\<close>;
  \<open>OtherException\<close> stands for any further subclass of \<open>Exception\<close>.
\<close>

datatype exn =
    AICAPIError string
  | TypeError string
  | AttributeError string
  | OtherException string

fun exn_str :: "exn \<Rightarrow> string" where
  "exn_str (AICAPIError m) = m"
| "exn_str (TypeError m) = m"
| "exn_str (AttributeError m) = m"
| "exn_str (OtherException m) = m"

subsection \<open>Built-ins of Python used by the server\<close>

definition nl :: string where
  "nl = [CHR 0x0A]"

definition quoted :: "string \<Rightarrow> string" where
  "quoted s = [CHR 0x27] @ s @ [CHR 0x27]"

fun str_nat :: "nat \<Rightarrow> string" where
  "str_nat n =
     (if n < 10 then [''0123456789'' ! n]
      else str_nat (n div 10) @ [''0123456789'' ! (n mod 10)])"

declare str_nat.simps [simp del]

definition str_int :: "int \<Rightarrow> string" where
  "str_int i = (if i < 0 then ''-'' @ str_nat (nat (- i)) else str_nat (nat i))"

fun join :: "string \<Rightarrow> string list \<Rightarrow> string" where
  "join sep [] = []"
| "join sep [x] = x"
| "join sep (x # y # ys) = x @ sep @ join sep (y # ys)"

text \<open>\<open>repr\<close> of a \<open>str\<close>: the quote is \<open>"\<close> only when the text holds \<open>'\<close> and no \<open>"\<close>.\<close>

definition hex2 :: "nat \<Rightarrow> string" where
  "hex2 n = [''0123456789abcdef'' ! (n div 16), ''0123456789abcdef'' ! (n mod 16)]"

definition repr_char :: "char \<Rightarrow> char \<Rightarrow> string" where
  "repr_char q c =
     (let n = (of_char c :: nat) in
      if c = q \<or> c = CHR 0x5C then [CHR 0x5C, c]
      else if n = 9 then [CHR 0x5C, CHR ''t'']
      else if n = 10 then [CHR 0x5C, CHR ''n'']
      else if n = 13 then [CHR 0x5C, CHR ''r'']
      else if n < 32 \<or> n = 127 then [CHR 0x5C, CHR ''x''] @ hex2 n
      else if n < 127 then [c]
      else if n \<le> 160 \<or> n = 173 then [CHR 0x5C, CHR ''x''] @ hex2 n
      else [c])"

definition repr_str :: "string \<Rightarrow> string" where
  "repr_str s =
     (let q = (if CHR 0x27 \<in> set s \<and> CHR 0x22 \<notin> set s then CHR 0x22 else CHR 0x27)
      in [q] @ concat (map (repr_char q) s) @ [q])"

fun py_repr :: "json \<Rightarrow> string" where
  "py_repr JNull = ''None''"
| "py_repr (JBool b) = (if b then ''True'' else ''False'')"
| "py_repr (JInt i) = str_int i"
| "py_repr (JStr s) = repr_str s"
| "py_repr (JList xs) = ''['' @ join '', '' (map py_repr xs) @ '']''"
| "py_repr (JObj kvs) =
     ''{'' @ join '', '' (map (\<lambda>kv. repr_str (fst kv) @ '': '' @ py_repr (snd kv)) kvs) @ ''}''"

text \<open>
  \<open>str(v)\<close>, which an f-string applies to each interpolated value. The decimal text of
  an \<open>int\<close> is unbounded here, as in Python 3.10 as first released. An interpreter with
  the limit on integer string conversion (3.10.7, 3.11 and later; 4300 digits unless
  configured otherwise) raises \<open>ValueError\<close> instead of printing a longer \<open>int\<close>,
  wherever one is printed; \<open>printable\<close> below names the values that stay within that
  limit.
\<close>

fun py_str :: "json \<Rightarrow> string" where
  "py_str (JStr s) = s"
| "py_str v = py_repr v"

fun truthy :: "json \<Rightarrow> bool" where
  "truthy JNull = False"
| "truthy (JBool b) = b"
| "truthy (JInt i) = (i \<noteq> 0)"
| "truthy (JStr s) = (s \<noteq> [])"
| "truthy (JList xs) = (xs \<noteq> [])"
| "truthy (JObj kvs) = (kvs \<noteq> [])"

fun type_name :: "json \<Rightarrow> string" where
  "type_name JNull = ''NoneType''"
| "type_name (JBool b) = ''bool''"
| "type_name (JInt i) = ''int''"
| "type_name (JStr s) = ''str''"
| "type_name (JList xs) = ''list''"
| "type_name (JObj kvs) = ''dict''"

text \<open>\<open>d.get(k)\<close> and \<open>d.get(k, default)\<close> on a dict.\<close>

definition dict_get :: "pydict \<Rightarrow> string \<Rightarrow> json" where
  "dict_get d k = (case map_of d k of None \<Rightarrow> JNull | Some v \<Rightarrow> v)"

definition dict_get_default :: "pydict \<Rightarrow> string \<Rightarrow> json \<Rightarrow> json" where
  "dict_get_default d k dflt = (case map_of d k of None \<Rightarrow> dflt | Some v \<Rightarrow> v)"

text \<open>
  Calling \<open>v.get(...)\<close> on a value that is not a dict raises this \<open>AttributeError\<close>.
\<close>

definition no_get :: "json \<Rightarrow> exn" where
  "no_get v = AttributeError (quoted (type_name v) @ '' object has no attribute '' @ quoted ''get'')"

text \<open>\<open>xs[:k]\<close> on a sequence: a negative \<open>k\<close> counts from the end.\<close>

definition slice_to :: "int \<Rightarrow> 'a list \<Rightarrow> 'a list" where
  "slice_to k xs = (if k < 0 then take (nat (int (length xs) + k)) xs else take (nat k) xs)"

text \<open>\<open>xs[:k]\<close> for any stop value \<open>k\<close>: \<open>None\<close> keeps the whole sequence.\<close>

fun slice_stop :: "json \<Rightarrow> 'a list \<Rightarrow> exn + 'a list" where
  "slice_stop (JInt k) xs = Inr (slice_to k xs)"
| "slice_stop (JBool b) xs = Inr (slice_to (if b then 1 else 0) xs)"
| "slice_stop JNull xs = Inr xs"
| "slice_stop v xs =
     Inl (TypeError ''slice indices must be integers or None or have an __index__ method'')"

text \<open>
  \<open>min(v, bound)\<close> with an \<open>int\<close> bound: Python returns \<open>bound\<close> when \<open>bound < v\<close> and
  \<open>v\<close> itself otherwise; \<open>bool\<close> compares as 0 or 1, and a value that has no order with
  \<open>int\<close> raises \<open>TypeError\<close>.
\<close>

fun py_min :: "json \<Rightarrow> int \<Rightarrow> exn + json" where
  "py_min (JInt i) bound = Inr (if bound < i then JInt bound else JInt i)"
| "py_min (JBool b) bound = Inr (if bound < (if b then 1 else 0) then JInt bound else JBool b)"
| "py_min v bound =
     Inl (TypeError (quoted ''<'' @ '' not supported between instances of '' @ quoted ''int''
            @ '' and '' @ quoted (type_name v)))"

section \<open>The remote client: \<open>make_api_request\<close>\<close>

definition BASE_URL :: string where
  "BASE_URL = ''https://api.artic.edu/api/v1''"

definition MAX_RESULTS :: int where
  "MAX_RESULTS = 100"

text \<open>
  One outbound GET: the target and the query parameters handed to \<open>client.get\<close>
  (\<open>None\<close> when the caller passed no parameters).
\<close>

record request =
  req_url :: string
  req_params :: "pydict option"

text \<open>
  What \<open>client.get\<close>, \<open>raise_for_status\<close> and \<open>response.json()\<close> do is outside the
  program. The remote side is a parameter: a function from the request to one of the four
  outcomes the \<open>try\<close> block distinguishes: the decoded body, an \<open>httpx.HTTPStatusError\<close>
  with the status code and the response text, an \<open>httpx.RequestError\<close> with its text, or
  any other exception with its text. The decoded body is a dict, as the return annotation
  of \<open>make_api_request\<close> and the parameter annotation of the renderers say.
\<close>

datatype http_outcome =
    Json pydict
  | HTTPStatusError int string
  | RequestError string
  | OtherFailure string

type_synonym remote = "request \<Rightarrow> http_outcome"

text \<open>
  \<open>make_api_request\<close> returns the requests it issued together with its result.
  A truthy \<open>params\<close> (a non-empty dict) loses its \<open>None\<close> values; \<open>None\<close> and the
  empty dict are passed on as they are. Inside the \<open>try\<close>, before \<open>client.get\<close>, the
  text of the log line is built from the target and the parameters; \<open>logger.info\<close>
  only records it. Building it prints every \<open>int\<close> among the parameters, so under an
  interpreter with the limit on integer string conversion a parameter that is not
  \<open>printable\<close> ends the call there, with no request; the model has no such limit, and
  the statements below that say a request is issued assume \<open>printable\<close> arguments.
\<close>

definition make_api_request ::
  "remote \<Rightarrow> string \<Rightarrow> pydict option \<Rightarrow> request list \<times> (exn + pydict)" where
  "make_api_request remote endpoint params =
     (let url = BASE_URL @ ''/'' @ dropWhile (\<lambda>c. c = CHR ''/'') endpoint;
          params' = (case params of
                       None \<Rightarrow> None
                     | Some d \<Rightarrow> if d \<noteq> [] then Some (filter (\<lambda>kv. snd kv \<noteq> JNull) d)
                               else Some d);
          message = ''Making request to '' @ url @ '' with params: ''
                    @ (case params' of None \<Rightarrow> ''None'' | Some d \<Rightarrow> py_repr (JObj d));
          req = \<lparr>req_url = url, req_params = params'\<rparr>
      in ([req],
          case remote req of
            Json body \<Rightarrow> Inr body
          | HTTPStatusError code text \<Rightarrow>
              Inl (AICAPIError (''API request failed: '' @ str_int code @ '' - '' @ text))
          | RequestError m \<Rightarrow> Inl (AICAPIError (''Failed to connect to API: '' @ m))
          | OtherFailure m \<Rightarrow> Inl (AICAPIError (''Unexpected error: '' @ m))))"

section \<open>The renderers\<close>

text \<open>
  The f-string fragment \<open>{description[:300]}{'...' if len(description) > 300 else ''}\<close>.
  A \<open>str\<close> and a \<open>list\<close> can be sliced; \<open>None\<close>, \<open>int\<close> and \<open>bool\<close> raise
  \<open>TypeError\<close>, and so does a dict under Python 3.10 and 3.11 (from 3.12 on the dict
  raises \<open>KeyError\<close> instead, which the same handler catches).
\<close>

fun description_text :: "json \<Rightarrow> exn + string" where
  "description_text (JStr s) = Inr (take 300 s @ (if length s > 300 then ''...'' else []))"
| "description_text (JList xs) =
     Inr (py_str (JList (take 300 xs)) @ (if length xs > 300 then ''...'' else []))"
| "description_text (JObj d) = Inl (TypeError (''unhashable type: '' @ quoted ''slice''))"
| "description_text v = Inl (TypeError (quoted (type_name v) @ '' object is not subscriptable''))"

text \<open>A \<open>for\<close> loop that appends one block per record; the first exception leaves it.\<close>

fun render_each :: "(json \<Rightarrow> exn + string) \<Rightarrow> json list \<Rightarrow> exn + string list" where
  "render_each f [] = Inr []"
| "render_each f (x # xs) =
     (case f x of
        Inl e \<Rightarrow> Inl e
      | Inr t \<Rightarrow> (case render_each f xs of Inl e \<Rightarrow> Inl e | Inr ts \<Rightarrow> Inr (t # ts)))"

text \<open>\<open>data["data"] if isinstance(data["data"], list) else [data["data"]]\<close>\<close>

fun as_list :: "json \<Rightarrow> json list" where
  "as_list (JList xs) = xs"
| "as_list v = [v]"

definition separator :: string where
  "separator = nl @ ''---'' @ nl"

subsection \<open>\<open>format_artwork_response\<close>\<close>

text \<open>The body of the loop: the text of one artwork.\<close>

fun artwork_text :: "json \<Rightarrow> exn + string" where
  "artwork_text (JObj artwork) =
     (let title = dict_get_default artwork ''title'' (JStr ''Untitled'');
          artist = dict_get_default artwork ''artist_display'' (JStr ''Unknown artist'');
          date = dict_get_default artwork ''date_display'' (JStr ''Unknown date'');
          medium = dict_get_default artwork ''medium_display'' (JStr ''Unknown medium'');
          place = dict_get_default artwork ''place_of_origin'' (JStr ''Unknown origin'');
          description =
            (if truthy (dict_get artwork ''short_description'')
             then dict_get artwork ''short_description''
             else dict_get_default artwork ''description'' (JStr ''No description available''));
          artwork_id = dict_get_default artwork ''id'' (JStr ''Unknown'')
      in case description_text description of
           Inl e \<Rightarrow> Inl e
         | Inr d \<Rightarrow>
             Inr (nl @ ''**'' @ py_str title @ ''**'' @ nl
                  @ ''ID: '' @ py_str artwork_id @ nl
                  @ ''Artist: '' @ py_str artist @ nl
                  @ ''Date: '' @ py_str date @ nl
                  @ ''Medium: '' @ py_str medium @ nl
                  @ ''Origin: '' @ py_str place @ nl
                  @ ''Description: '' @ d @ nl
                  @ (if truthy (dict_get artwork ''image_id'')
                     then ''Image: '' @ ''https://www.artic.edu/iiif/2/''
                          @ py_str (dict_get artwork ''image_id'')
                          @ ''/full/843,/0/default.jpg'' @ nl
                     else [])
                  @ (if truthy (dict_get artwork ''id'')
                     then ''View online: '' @ ''https://www.artic.edu/artworks/''
                          @ py_str (dict_get artwork ''id'') @ nl
                     else [])))"
| "artwork_text v = Inl (no_get v)"

definition format_artwork_response :: "pydict \<Rightarrow> exn + string" where
  "format_artwork_response data =
     (case map_of data ''data'' of
        None \<Rightarrow> Inr ''No artwork data found.''
      | Some dv \<Rightarrow>
          (let artworks = as_list dv in
           if artworks = [] then Inr ''No artworks found.''
           else case render_each artwork_text (take 10 artworks) of
                  Inl e \<Rightarrow> Inl e
                | Inr result \<Rightarrow>
                    (case map_of data ''pagination'' of
                       None \<Rightarrow> Inr (join separator result)
                     | Some (JObj pagination) \<Rightarrow>
                         (let total = dict_get_default pagination ''total'' (JInt 0);
                              current_page = dict_get_default pagination ''current_page'' (JInt 1);
                              total_pages = dict_get_default pagination ''total_pages'' (JInt 1)
                          in Inr (join separator
                                (result @
                                 [nl @ ''Showing '' @ str_int (int (length artworks)) @ '' of ''
                                  @ py_str total @ '' total results (Page '' @ py_str current_page
                                  @ ''/'' @ py_str total_pages @ '')''])))
                     | Some v \<Rightarrow> Inl (no_get v))))"

subsection \<open>\<open>format_agent_response\<close>, \<open>format_exhibition_response\<close>, \<open>format_gallery_response\<close>\<close>

text \<open>
  The closing line of these three renderers, appended when the reply has a
  \<open>pagination\<close> key: \<open>Showing {len(records)} of {total} total results\<close>.
\<close>

definition with_total :: "pydict \<Rightarrow> nat \<Rightarrow> string list \<Rightarrow> exn + string" where
  "with_total data n result =
     (case map_of data ''pagination'' of
        None \<Rightarrow> Inr (join separator result)
      | Some (JObj pagination) \<Rightarrow>
          (let total = dict_get_default pagination ''total'' (JInt 0)
           in Inr (join separator
                 (result @
                  [nl @ ''Showing '' @ str_int (int n) @ '' of '' @ py_str total
                   @ '' total results''])))
      | Some v \<Rightarrow> Inl (no_get v))"

fun agent_text :: "json \<Rightarrow> exn + string" where
  "agent_text (JObj agent) =
     (let title = dict_get_default agent ''title'' (JStr ''Unknown'');
          birth_date = dict_get_default agent ''birth_date'' (JStr ''Unknown'');
          death_date = dict_get_default agent ''death_date'' (JStr ''Unknown'');
          description = dict_get_default agent ''description'' (JStr ''No description available'');
          agent_id = dict_get_default agent ''id'' (JStr ''Unknown'')
      in case description_text description of
           Inl e \<Rightarrow> Inl e
         | Inr d \<Rightarrow>
             Inr (nl @ ''**'' @ py_str title @ ''**'' @ nl
                  @ ''ID: '' @ py_str agent_id @ nl
                  @ ''Birth: '' @ py_str birth_date @ nl
                  @ ''Death: '' @ py_str death_date @ nl
                  @ ''Description: '' @ d @ nl))"
| "agent_text v = Inl (no_get v)"

definition format_agent_response :: "pydict \<Rightarrow> exn + string" where
  "format_agent_response data =
     (case map_of data ''data'' of
        None \<Rightarrow> Inr ''No agent data found.''
      | Some dv \<Rightarrow>
          (let agents = as_list dv in
           if agents = [] then Inr ''No agents found.''
           else case render_each agent_text (take 10 agents) of
                  Inl e \<Rightarrow> Inl e
                | Inr result \<Rightarrow> with_total data (length agents) result))"

fun exhibition_text :: "json \<Rightarrow> exn + string" where
  "exhibition_text (JObj exhibition) =
     (let title = dict_get_default exhibition ''title'' (JStr ''Untitled Exhibition'');
          description =
            dict_get_default exhibition ''short_description'' (JStr ''No description available'');
          start_date = dict_get_default exhibition ''aic_start_at'' (JStr ''Unknown'');
          end_date = dict_get_default exhibition ''aic_end_at'' (JStr ''Unknown'');
          status = dict_get_default exhibition ''status'' (JStr ''Unknown'');
          gallery = dict_get_default exhibition ''gallery_title'' (JStr ''Unknown location'');
          exhibition_id = dict_get_default exhibition ''id'' (JStr ''Unknown'')
      in case description_text description of
           Inl e \<Rightarrow> Inl e
         | Inr d \<Rightarrow>
             Inr (nl @ ''**'' @ py_str title @ ''**'' @ nl
                  @ ''ID: '' @ py_str exhibition_id @ nl
                  @ ''Status: '' @ py_str status @ nl
                  @ ''Dates: '' @ py_str start_date @ '' to '' @ py_str end_date @ nl
                  @ ''Location: '' @ py_str gallery @ nl
                  @ ''Description: '' @ d @ nl
                  @ (if truthy (dict_get exhibition ''web_url'')
                     then ''More info: '' @ py_str (dict_get exhibition ''web_url'') @ nl
                     else [])))"
| "exhibition_text v = Inl (no_get v)"

definition format_exhibition_response :: "pydict \<Rightarrow> exn + string" where
  "format_exhibition_response data =
     (case map_of data ''data'' of
        None \<Rightarrow> Inr ''No exhibition data found.''
      | Some dv \<Rightarrow>
          (let exhibitions = as_list dv in
           if exhibitions = [] then Inr ''No exhibitions found.''
           else case render_each exhibition_text (take 10 exhibitions) of
                  Inl e \<Rightarrow> Inl e
                | Inr result \<Rightarrow> with_total data (length exhibitions) result))"

fun gallery_text :: "json \<Rightarrow> exn + string" where
  "gallery_text (JObj gallery) =
     (let title = dict_get_default gallery ''title'' (JStr ''Unknown Gallery'');
          number = dict_get_default gallery ''number'' (JStr ''Unknown'');
          floor = dict_get_default gallery ''floor'' (JStr ''Unknown'');
          is_closed = dict_get_default gallery ''is_closed'' (JBool False);
          gallery_id = dict_get_default gallery ''id'' (JStr ''Unknown'');
          status = (if truthy is_closed then ''Closed'' else ''Open'')
      in Inr (nl @ ''**'' @ py_str title @ ''**'' @ nl
              @ ''ID: '' @ py_str gallery_id @ nl
              @ ''Gallery Number: '' @ py_str number @ nl
              @ ''Floor: '' @ py_str floor @ nl
              @ ''Status: '' @ status @ nl))"
| "gallery_text v = Inl (no_get v)"

definition format_gallery_response :: "pydict \<Rightarrow> exn + string" where
  "format_gallery_response data =
     (case map_of data ''data'' of
        None \<Rightarrow> Inr ''No gallery data found.''
      | Some dv \<Rightarrow>
          (let galleries = as_list dv in
           if galleries = [] then Inr ''No galleries found.''
           else case render_each gallery_text (take 20 galleries) of
                  Inl e \<Rightarrow> Inl e
                | Inr result \<Rightarrow> with_total data (length galleries) result))"

subsection \<open>The mixed results of \<open>search_all\<close>\<close>

text \<open>
  \<open>call_tool\<close> renders the reply of \<open>search_all\<close> in place. \<open>data["data"][:limit]\<close>
  slices a list or a \<open>str\<close> (whose items are its one-character strings) and raises on
  any other truthy value.
\<close>

fun mixed_items :: "json \<Rightarrow> json \<Rightarrow> exn + json list" where
  "mixed_items (JList xs) limit = slice_stop limit xs"
| "mixed_items (JStr s) limit =
     (case slice_stop limit s of Inl e \<Rightarrow> Inl e | Inr t \<Rightarrow> Inr (map (\<lambda>c. JStr [c]) t))"
| "mixed_items (JObj d) limit = Inl (TypeError (''unhashable type: '' @ quoted ''slice''))"
| "mixed_items v limit = Inl (TypeError (quoted (type_name v) @ '' object is not subscriptable''))"

fun mixed_text :: "json \<Rightarrow> exn + string" where
  "mixed_text (JObj item) =
     (let api_model = dict_get_default item ''api_model'' (JStr ''unknown'');
          title = dict_get_default item ''title'' (JStr ''Untitled'');
          item_id = dict_get_default item ''id'' (JStr ''Unknown'')
      in Inr (''**'' @ py_str title @ ''** (Type: '' @ py_str api_model @ '', ID: ''
              @ py_str item_id @ '')''))"
| "mixed_text v = Inl (no_get v)"

definition format_mixed_response :: "pydict \<Rightarrow> json \<Rightarrow> exn + string" where
  "format_mixed_response data limit =
     (if map_of data ''data'' = None \<or> \<not> truthy (dict_get data ''data'')
      then Inr ''No results found.''
      else case mixed_items (dict_get data ''data'') limit of
             Inl e \<Rightarrow> Inl e
           | Inr items \<Rightarrow>
               (case render_each mixed_text items of
                  Inl e \<Rightarrow> Inl e
                | Inr results \<Rightarrow>
                    (case map_of data ''pagination'' of
                       None \<Rightarrow> Inr (join nl results)
                     | Some (JObj pagination) \<Rightarrow>
                         (let total = dict_get_default pagination ''total'' (JInt 0)
                          in Inr (join nl results @ nl @ nl @ ''Showing ''
                                  @ str_int (int (length results)) @ '' of '' @ py_str total
                                  @ '' total results''))
                     | Some v \<Rightarrow> Inl (no_get v))))"

section \<open>The dispatcher: \<open>call_tool\<close>\<close>

text \<open>
  Every branch ends the same way: one call of \<open>make_api_request\<close>, then the renderer
  on the decoded reply.
\<close>

definition fetch ::
  "remote \<Rightarrow> string \<Rightarrow> pydict option \<Rightarrow> (pydict \<Rightarrow> exn + string)
     \<Rightarrow> request list \<times> (exn + string)" where
  "fetch remote endpoint params render =
     (case make_api_request remote endpoint params of
        (reqs, Inl e) \<Rightarrow> (reqs, Inl e)
      | (reqs, Inr data) \<Rightarrow> (reqs, render data))"

text \<open>
  The \<open>try\<close> block of \<open>call_tool\<close>: the requests issued, and the text or the exception
  raised. \<open>arguments\<close> is the dict of the invocation.
\<close>

definition call_tool_body ::
  "remote \<Rightarrow> string \<Rightarrow> pydict \<Rightarrow> request list \<times> (exn + string)" where
  "call_tool_body remote name arguments =
     (if name = ''search_artworks'' then
        (let query = dict_get arguments ''query'' in
         case py_min (dict_get_default arguments ''limit'' (JInt 10)) MAX_RESULTS of
           Inl e \<Rightarrow> ([], Inl e)
         | Inr limit \<Rightarrow>
             (let page = dict_get_default arguments ''page'' (JInt 1);
                  fields = dict_get arguments ''fields'';
                  params = [(''q'', query), (''limit'', limit), (''page'', page),
                            (''fields'', fields)]
              in fetch remote ''artworks/search'' (Some params) format_artwork_response))
      else if name = ''get_artwork'' then
        (let artwork_id = dict_get arguments ''artwork_id'';
             fields = dict_get arguments ''fields'';
             params = (if truthy fields then Some [(''fields'', fields)] else None)
         in fetch remote (''artworks/'' @ py_str artwork_id) params format_artwork_response)
      else if name = ''search_agents'' then
        (let query = dict_get arguments ''query'' in
         case py_min (dict_get_default arguments ''limit'' (JInt 10)) MAX_RESULTS of
           Inl e \<Rightarrow> ([], Inl e)
         | Inr limit \<Rightarrow>
             (let page = dict_get_default arguments ''page'' (JInt 1);
                  params = [(''q'', query), (''limit'', limit), (''page'', page)]
              in fetch remote ''agents/search'' (Some params) format_agent_response))
      else if name = ''get_agent'' then
        (let agent_id = dict_get arguments ''agent_id''
         in fetch remote (''agents/'' @ py_str agent_id) None format_agent_response)
      else if name = ''search_exhibitions'' then
        (let query = dict_get arguments ''query'' in
         case py_min (dict_get_default arguments ''limit'' (JInt 10)) MAX_RESULTS of
           Inl e \<Rightarrow> ([], Inl e)
         | Inr limit \<Rightarrow>
             (let page = dict_get_default arguments ''page'' (JInt 1);
                  params = [(''q'', query), (''limit'', limit), (''page'', page)]
              in fetch remote ''exhibitions/search'' (Some params) format_exhibition_response))
      else if name = ''get_exhibition'' then
        (let exhibition_id = dict_get arguments ''exhibition_id''
         in fetch remote (''exhibitions/'' @ py_str exhibition_id) None
              format_exhibition_response)
      else if name = ''list_galleries'' then
        (case py_min (dict_get_default arguments ''limit'' (JInt 20)) MAX_RESULTS of
           Inl e \<Rightarrow> ([], Inl e)
         | Inr limit \<Rightarrow>
             (let page = dict_get_default arguments ''page'' (JInt 1);
                  params = [(''limit'', limit), (''page'', page)]
              in fetch remote ''galleries'' (Some params) format_gallery_response))
      else if name = ''get_gallery'' then
        (let gallery_id = dict_get arguments ''gallery_id''
         in fetch remote (''galleries/'' @ py_str gallery_id) None format_gallery_response)
      else if name = ''search_all'' then
        (let query = dict_get arguments ''query'' in
         case py_min (dict_get_default arguments ''limit'' (JInt 10)) MAX_RESULTS of
           Inl e \<Rightarrow> ([], Inl e)
         | Inr limit \<Rightarrow>
             (let params = [(''q'', query), (''limit'', limit)]
              in fetch remote ''search'' (Some params) (\<lambda>data. format_mixed_response data limit)))
      else ([], Inr (''Unknown tool: '' @ name)))"

text \<open>
  The two handlers: \<open>except AICAPIError\<close> and \<open>except Exception\<close>. The reply is the
  text of the single \<open>TextContent\<close> that \<open>call_tool\<close> returns.
\<close>

fun handle :: "exn + string \<Rightarrow> string" where
  "handle (Inr response_text) = response_text"
| "handle (Inl (AICAPIError m)) = ''Error: '' @ m"
| "handle (Inl e) = ''Unexpected error: '' @ exn_str e"

definition call_tool :: "remote \<Rightarrow> string \<Rightarrow> pydict \<Rightarrow> request list \<times> string" where
  "call_tool remote name arguments =
     (case call_tool_body remote name arguments of (reqs, r) \<Rightarrow> (reqs, handle r))"

section \<open>Observations on an invocation\<close>

text \<open>The names that \<open>call_tool\<close> compares \<open>name\<close> with, in the order of its branches.\<close>

definition tool_names :: "string list" where
  "tool_names = [''search_artworks'', ''get_artwork'', ''search_agents'', ''get_agent'',
     ''search_exhibitions'', ''get_exhibition'', ''list_galleries'', ''get_gallery'',
     ''search_all'']"

text \<open>No key of the parameters handed to \<open>client.get\<close> maps to \<open>None\<close>.\<close>

definition no_null_params :: "request \<Rightarrow> bool" where
  "no_null_params req =
     (case req_params req of None \<Rightarrow> True | Some ps \<Rightarrow> \<forall>kv \<in> set ps. snd kv \<noteq> JNull)"

text \<open>The tools that read \<open>limit\<close>, each with the default of its \<open>arguments.get\<close>.\<close>

definition limit_tools :: "(string \<times> int) list" where
  "limit_tools = [(''search_artworks'', 10), (''search_agents'', 10),
     (''search_exhibitions'', 10), (''list_galleries'', 20), (''search_all'', 10)]"


text \<open>
  The \<open>limit\<close> of an invocation when it is absent (the default) or an integer; no value
  for any other argument.
\<close>

definition requested_limit :: "pydict \<Rightarrow> int \<Rightarrow> int option" where
  "requested_limit arguments dflt =
     (case map_of arguments ''limit'' of
        None \<Rightarrow> Some dflt
      | Some (JInt n) \<Rightarrow> Some n
      | Some v \<Rightarrow> None)"

text \<open>The value a request carries for a parameter name, if any.\<close>

definition outbound :: "request \<Rightarrow> string \<Rightarrow> json option" where
  "outbound req k = (case req_params req of None \<Rightarrow> None | Some ps \<Rightarrow> map_of ps k)"

text \<open>
  The values that \<open>str\<close> prints under the default limit on integer string conversion:
  no \<open>int\<close> in them has more than 4300 digits.
\<close>

fun printable :: "json \<Rightarrow> bool" where
  "printable (JInt i) = (length (str_nat (nat \<bar>i\<bar>)) \<le> 4300)"
| "printable (JList xs) = (\<forall>x \<in> set xs. printable x)"
| "printable (JObj kvs) = (\<forall>kv \<in> set kvs. printable (snd kv))"
| "printable v = True"


text \<open>
  The description as C6 words it: unchanged up to 300 characters, otherwise the first
  300 characters and an ellipsis.
\<close>

definition shown_description :: "string \<Rightarrow> string" where
  "shown_description s = (if length s \<le> 300 then s else take 300 s @ ''...'')"

text \<open>The exceptions that reach the second handler of \<open>call_tool\<close>.\<close>

definition unexpected :: "exn \<Rightarrow> bool" where
  "unexpected e = (case e of AICAPIError m \<Rightarrow> False | _ \<Rightarrow> True)"

section \<open>Lemmas about the dispatcher\<close>

lemma fst_make_api_request:
  "fst (make_api_request remote endpoint params) =
     [\<lparr>req_url = BASE_URL @ ''/'' @ dropWhile (\<lambda>c. c = CHR ''/'') endpoint,
       req_params = (case params of None \<Rightarrow> None
                     | Some d \<Rightarrow> Some (filter (\<lambda>kv. snd kv \<noteq> JNull) d))\<rparr>]"
  by (cases params) (simp_all add: make_api_request_def Let_def)

lemma fst_fetch:
  "fst (fetch remote endpoint params render) = fst (make_api_request remote endpoint params)"
  by (simp add: fetch_def split: prod.splits sum.splits)


lemma make_api_request_no_null:
  "req \<in> set (fst (make_api_request remote endpoint params)) \<Longrightarrow> no_null_params req"
  by (cases params) (auto simp: fst_make_api_request no_null_params_def)

lemma fst_call_tool: "fst (call_tool remote name arguments) = fst (call_tool_body remote name arguments)"
  by (simp add: call_tool_def split: prod.splits)

lemma body_search_artworks:
  "call_tool_body remote ''search_artworks'' arguments =
     (case py_min (dict_get_default arguments ''limit'' (JInt 10)) MAX_RESULTS of
        Inl e \<Rightarrow> ([], Inl e)
      | Inr limit \<Rightarrow>
          fetch remote ''artworks/search''
            (Some [(''q'', dict_get arguments ''query''), (''limit'', limit),
                   (''page'', dict_get_default arguments ''page'' (JInt 1)),
                   (''fields'', dict_get arguments ''fields'')])
            format_artwork_response)"
  by (simp add: call_tool_body_def Let_def split: sum.splits)

lemma body_search_agents:
  "call_tool_body remote ''search_agents'' arguments =
     (case py_min (dict_get_default arguments ''limit'' (JInt 10)) MAX_RESULTS of
        Inl e \<Rightarrow> ([], Inl e)
      | Inr limit \<Rightarrow>
          fetch remote ''agents/search''
            (Some [(''q'', dict_get arguments ''query''), (''limit'', limit),
                   (''page'', dict_get_default arguments ''page'' (JInt 1))])
            format_agent_response)"
  by (simp add: call_tool_body_def Let_def split: sum.splits)

lemma body_search_exhibitions:
  "call_tool_body remote ''search_exhibitions'' arguments =
     (case py_min (dict_get_default arguments ''limit'' (JInt 10)) MAX_RESULTS of
        Inl e \<Rightarrow> ([], Inl e)
      | Inr limit \<Rightarrow>
          fetch remote ''exhibitions/search''
            (Some [(''q'', dict_get arguments ''query''), (''limit'', limit),
                   (''page'', dict_get_default arguments ''page'' (JInt 1))])
            format_exhibition_response)"
  by (simp add: call_tool_body_def Let_def split: sum.splits)

lemma body_list_galleries:
  "call_tool_body remote ''list_galleries'' arguments =
     (case py_min (dict_get_default arguments ''limit'' (JInt 20)) MAX_RESULTS of
        Inl e \<Rightarrow> ([], Inl e)
      | Inr limit \<Rightarrow>
          fetch remote ''galleries''
            (Some [(''limit'', limit), (''page'', dict_get_default arguments ''page'' (JInt 1))])
            format_gallery_response)"
  by (simp add: call_tool_body_def Let_def split: sum.splits)

lemma body_search_all:
  "call_tool_body remote ''search_all'' arguments =
     (case py_min (dict_get_default arguments ''limit'' (JInt 10)) MAX_RESULTS of
        Inl e \<Rightarrow> ([], Inl e)
      | Inr limit \<Rightarrow>
          fetch remote ''search'' (Some [(''q'', dict_get arguments ''query''), (''limit'', limit)])
            (\<lambda>data. format_mixed_response data limit))"
  by (simp add: call_tool_body_def Let_def split: sum.splits)

lemma body_get_artwork:
  "call_tool_body remote ''get_artwork'' arguments =
     fetch remote (''artworks/'' @ py_str (dict_get arguments ''artwork_id''))
       (if truthy (dict_get arguments ''fields'')
        then Some [(''fields'', dict_get arguments ''fields'')] else None)
       format_artwork_response"
  by (simp add: call_tool_body_def Let_def split: sum.splits)

lemma body_get_agent:
  "call_tool_body remote ''get_agent'' arguments =
     fetch remote (''agents/'' @ py_str (dict_get arguments ''agent_id'')) None
       format_agent_response"
  by (simp add: call_tool_body_def Let_def split: sum.splits)

lemma body_get_exhibition:
  "call_tool_body remote ''get_exhibition'' arguments =
     fetch remote (''exhibitions/'' @ py_str (dict_get arguments ''exhibition_id'')) None
       format_exhibition_response"
  by (simp add: call_tool_body_def Let_def split: sum.splits)

lemma body_get_gallery:
  "call_tool_body remote ''get_gallery'' arguments =
     fetch remote (''galleries/'' @ py_str (dict_get arguments ''gallery_id'')) None
       format_gallery_response"
  by (simp add: call_tool_body_def Let_def split: sum.splits)

lemma body_unknown:
  "name \<notin> set tool_names \<Longrightarrow>
   call_tool_body remote name arguments = ([], Inr (''Unknown tool: '' @ name))"
  by (simp add: tool_names_def call_tool_body_def)

lemma tool_names_iff:
  "name \<in> set tool_names \<longleftrightarrow> name = ''search_artworks'' \<or> name = ''get_artwork''
    \<or> name = ''search_agents'' \<or> name = ''get_agent'' \<or> name = ''search_exhibitions''
    \<or> name = ''get_exhibition'' \<or> name = ''list_galleries'' \<or> name = ''get_gallery''
    \<or> name = ''search_all''"
  unfolding tool_names_def by (simp only: set_simps insert_iff empty_iff simp_thms)

lemma tool_names_cases:
  assumes "name \<in> set tool_names"
    and "P ''search_artworks''" and "P ''get_artwork''" and "P ''search_agents''"
    and "P ''get_agent''" and "P ''search_exhibitions''" and "P ''get_exhibition''"
    and "P ''list_galleries''" and "P ''get_gallery''" and "P ''search_all''"
  shows "P name"
  using assms unfolding tool_names_iff by - (elim disjE; hypsubst; assumption)

lemma fetch_no_null:
  "\<forall>req \<in> set (fst (fetch remote endpoint params render)). no_null_params req"
  unfolding fst_fetch by (intro ballI) (rule make_api_request_no_null)

lemma limit_branch_no_null:
  "\<forall>req \<in> set (fst (case r of Inl e \<Rightarrow> ([], Inl e)
                      | Inr limit \<Rightarrow> fetch remote endpoint (params limit) (render limit))).
     no_null_params req"
  using fetch_no_null by (cases r) simp_all

lemma call_tool_body_no_null:
  "\<forall>req \<in> set (fst (call_tool_body remote name arguments)). no_null_params req"
proof (cases "name \<in> set tool_names")
  case False
  then show ?thesis by (simp add: body_unknown)
next
  case True
  then show ?thesis
  proof (rule tool_names_cases)
    show "\<forall>req \<in> set (fst (call_tool_body remote ''search_artworks'' arguments)).
            no_null_params req"
      unfolding body_search_artworks by (rule limit_branch_no_null)
    show "\<forall>req \<in> set (fst (call_tool_body remote ''search_agents'' arguments)).
            no_null_params req"
      unfolding body_search_agents by (rule limit_branch_no_null)
    show "\<forall>req \<in> set (fst (call_tool_body remote ''search_exhibitions'' arguments)).
            no_null_params req"
      unfolding body_search_exhibitions by (rule limit_branch_no_null)
    show "\<forall>req \<in> set (fst (call_tool_body remote ''list_galleries'' arguments)).
            no_null_params req"
      unfolding body_list_galleries by (rule limit_branch_no_null)
    show "\<forall>req \<in> set (fst (call_tool_body remote ''search_all'' arguments)).
            no_null_params req"
      unfolding body_search_all by (rule limit_branch_no_null)
    show "\<forall>req \<in> set (fst (call_tool_body remote ''get_artwork'' arguments)).
            no_null_params req"
      unfolding body_get_artwork by (rule fetch_no_null)
    show "\<forall>req \<in> set (fst (call_tool_body remote ''get_agent'' arguments)).
            no_null_params req"
      unfolding body_get_agent by (rule fetch_no_null)
    show "\<forall>req \<in> set (fst (call_tool_body remote ''get_exhibition'' arguments)).
            no_null_params req"
      unfolding body_get_exhibition by (rule fetch_no_null)
    show "\<forall>req \<in> set (fst (call_tool_body remote ''get_gallery'' arguments)).
            no_null_params req"
      unfolding body_get_gallery by (rule fetch_no_null)
  qed
qed

lemma map_of_filter_not_null:
  "distinct (map fst ps) \<Longrightarrow>
   map_of (filter (\<lambda>kv. snd kv \<noteq> JNull) ps) k
     = (if map_of ps k = Some JNull then None else map_of ps k)"
proof (induction ps)
  case Nil
  then show ?case by simp
next
  case (Cons p ps)
  obtain a b where p: "p = (a, b)" by (cases p)
  from Cons.prems p have notin: "a \<notin> fst ` set ps" and d: "distinct (map fst ps)"
    by simp_all
  from notin have none: "map_of ps a = None"
    by (simp add: map_of_eq_None_iff)
  show ?case
  proof (cases "b = JNull")
    case True
    with Cons.IH [OF d] none p show ?thesis by simp
  next
    case False
    with Cons.IH [OF d] p show ?thesis by simp
  qed
qed

lemma requested_limit_get:
  "requested_limit arguments dflt = Some n \<Longrightarrow>
   dict_get_default arguments ''limit'' (JInt dflt) = JInt n"
  by (auto simp: requested_limit_def dict_get_default_def split: option.splits json.splits)

lemma py_min_int: "py_min (JInt n) MAX_RESULTS = Inr (JInt (min n 100))"
  by (simp add: MAX_RESULTS_def min_def)

lemma fetch_requests:
  "fst (fetch remote endpoint (Some ps) render) =
     [\<lparr>req_url = BASE_URL @ ''/'' @ dropWhile (\<lambda>c. c = CHR ''/'') endpoint,
       req_params = Some (filter (\<lambda>kv. snd kv \<noteq> JNull) ps)\<rparr>]"
  by (simp add: fst_fetch fst_make_api_request)

lemma limit_branch_requests:
  assumes "requested_limit arguments dflt = Some n"
  shows "fst (case py_min (dict_get_default arguments ''limit'' (JInt dflt)) MAX_RESULTS of
                Inl e \<Rightarrow> ([], Inl e)
              | Inr limit \<Rightarrow> fetch remote endpoint (Some (params limit)) (render limit))
         = [\<lparr>req_url = BASE_URL @ ''/'' @ dropWhile (\<lambda>c. c = CHR ''/'') endpoint,
             req_params = Some (filter (\<lambda>kv. snd kv \<noteq> JNull) (params (JInt (min n 100))))\<rparr>]"
proof -
  have "py_min (dict_get_default arguments ''limit'' (JInt dflt)) MAX_RESULTS
          = Inr (JInt (min n 100))"
    by (simp only: requested_limit_get [OF assms] py_min_int)
  then show ?thesis by (simp add: fetch_requests)
qed

lemma limit_tools_iff:
  "(name, dflt) \<in> set limit_tools \<longleftrightarrow>
     name = ''search_artworks'' \<and> dflt = 10 \<or> name = ''search_agents'' \<and> dflt = 10 \<or>
     name = ''search_exhibitions'' \<and> dflt = 10 \<or> name = ''list_galleries'' \<and> dflt = 20 \<or>
     name = ''search_all'' \<and> dflt = 10"
  unfolding limit_tools_def by (simp only: set_simps insert_iff empty_iff simp_thms prod.inject)

lemma limit_tools_cases:
  assumes "(name, dflt) \<in> set limit_tools"
    and "P ''search_artworks'' 10" and "P ''search_agents'' 10"
    and "P ''search_exhibitions'' 10" and "P ''list_galleries'' 20" and "P ''search_all'' 10"
  shows "P name dflt"
  using assms unfolding limit_tools_iff by - (elim disjE conjE; hypsubst; assumption)

lemma sent_limit:
  assumes "requested_limit arguments dflt = Some n"
    and "map_of (params (JInt (min n 100))) ''limit'' = Some (JInt (min n 100))"
    and "distinct (map fst (params (JInt (min n 100))))"
  shows "map (\<lambda>req. outbound req ''limit'')
           (fst (case py_min (dict_get_default arguments ''limit'' (JInt dflt)) MAX_RESULTS of
                   Inl e \<Rightarrow> ([], Inl e)
                 | Inr limit \<Rightarrow> fetch remote endpoint (Some (params limit)) (render limit)))
         = [Some (JInt (min n 100))]"
  unfolding limit_branch_requests [OF assms(1)]
  by (simp add: outbound_def map_of_filter_not_null [OF assms(3)] assms(2))




lemma snd_call_tool:
  "snd (call_tool remote name arguments) = handle (snd (call_tool_body remote name arguments))"
  by (simp add: call_tool_def split: prod.splits)

lemma handle_cases:
  "handle r = (case r of
                 Inr response_text \<Rightarrow> response_text
               | Inl e \<Rightarrow> (case e of
                            AICAPIError m \<Rightarrow> ''Error: '' @ m
                          | TypeError m \<Rightarrow> ''Unexpected error: '' @ m
                          | AttributeError m \<Rightarrow> ''Unexpected error: '' @ m
                          | OtherException m \<Rightarrow> ''Unexpected error: '' @ m))"
  by (simp split: sum.splits exn.splits)

lemma snd_make_api_request:
  "snd (make_api_request remote endpoint params) =
     (case remote (hd (fst (make_api_request remote endpoint params))) of
        Json body \<Rightarrow> Inr body
      | HTTPStatusError code text \<Rightarrow>
          Inl (AICAPIError (''API request failed: '' @ str_int code @ '' - '' @ text))
      | RequestError m \<Rightarrow> Inl (AICAPIError (''Failed to connect to API: '' @ m))
      | OtherFailure m \<Rightarrow> Inl (AICAPIError (''Unexpected error: '' @ m)))"
  by (simp add: make_api_request_def Let_def)

lemma snd_fetch:
  "snd (fetch remote endpoint params render) =
     (case snd (make_api_request remote endpoint params) of
        Inl e \<Rightarrow> Inl e
      | Inr data \<Rightarrow> render data)"
  by (simp add: fetch_def split: prod.splits sum.splits)

lemma str_int_404: "str_int 404 = ''404''"
  by (simp add: str_int_def str_nat.simps)

section \<open>Lemmas about the renderers\<close>

lemma description_text_str: "description_text (JStr s) = Inr (shown_description s)"
  by (simp add: shown_description_def)

lemma agent_text_description:
  assumes "dict_get_default agent ''description'' (JStr ''No description available'') = JStr s"
  shows "\<exists>head. agent_text (JObj agent)
           = Inr (head @ ''Description: '' @ shown_description s @ nl)"
  by (rule exI [of _
        "nl @ ''**'' @ py_str (dict_get_default agent ''title'' (JStr ''Unknown'')) @ ''**'' @ nl
         @ ''ID: '' @ py_str (dict_get_default agent ''id'' (JStr ''Unknown'')) @ nl
         @ ''Birth: '' @ py_str (dict_get_default agent ''birth_date'' (JStr ''Unknown'')) @ nl
         @ ''Death: '' @ py_str (dict_get_default agent ''death_date'' (JStr ''Unknown'')) @ nl"])
     (simp add: assms Let_def shown_description_def)

lemma exhibition_text_description:
  assumes "dict_get_default exhibition ''short_description'' (JStr ''No description available'')
             = JStr s"
  shows "\<exists>head tail. exhibition_text (JObj exhibition)
           = Inr (head @ ''Description: '' @ shown_description s @ nl @ tail)"
  by (rule exI [of _
        "nl @ ''**'' @ py_str (dict_get_default exhibition ''title'' (JStr ''Untitled Exhibition''))
         @ ''**'' @ nl
         @ ''ID: '' @ py_str (dict_get_default exhibition ''id'' (JStr ''Unknown'')) @ nl
         @ ''Status: '' @ py_str (dict_get_default exhibition ''status'' (JStr ''Unknown'')) @ nl
         @ ''Dates: '' @ py_str (dict_get_default exhibition ''aic_start_at'' (JStr ''Unknown''))
         @ '' to '' @ py_str (dict_get_default exhibition ''aic_end_at'' (JStr ''Unknown'')) @ nl
         @ ''Location: ''
         @ py_str (dict_get_default exhibition ''gallery_title'' (JStr ''Unknown location''))
         @ nl"],
      rule exI [of _
        "if truthy (dict_get exhibition ''web_url'')
         then ''More info: '' @ py_str (dict_get exhibition ''web_url'') @ nl else []"])
     (simp add: assms Let_def shown_description_def)

lemma artwork_text_description:
  assumes "(if truthy (dict_get artwork ''short_description'')
            then dict_get artwork ''short_description''
            else dict_get_default artwork ''description'' (JStr ''No description available''))
           = JStr s"
  shows "\<exists>head tail. artwork_text (JObj artwork)
           = Inr (head @ ''Description: '' @ shown_description s @ nl @ tail)"
  by (rule exI [of _
        "nl @ ''**'' @ py_str (dict_get_default artwork ''title'' (JStr ''Untitled'')) @ ''**'' @ nl
         @ ''ID: '' @ py_str (dict_get_default artwork ''id'' (JStr ''Unknown'')) @ nl
         @ ''Artist: ''
         @ py_str (dict_get_default artwork ''artist_display'' (JStr ''Unknown artist'')) @ nl
         @ ''Date: '' @ py_str (dict_get_default artwork ''date_display'' (JStr ''Unknown date''))
         @ nl
         @ ''Medium: ''
         @ py_str (dict_get_default artwork ''medium_display'' (JStr ''Unknown medium'')) @ nl
         @ ''Origin: ''
         @ py_str (dict_get_default artwork ''place_of_origin'' (JStr ''Unknown origin'')) @ nl"],
      rule exI [of _
        "(if truthy (dict_get artwork ''image_id'')
          then ''Image: '' @ ''https://www.artic.edu/iiif/2/''
               @ py_str (dict_get artwork ''image_id'') @ ''/full/843,/0/default.jpg'' @ nl
          else [])
         @ (if truthy (dict_get artwork ''id'')
            then ''View online: '' @ ''https://www.artic.edu/artworks/''
                 @ py_str (dict_get artwork ''id'') @ nl
            else [])"])
     (simp add: assms Let_def shown_description_def)


lemma render_each_raises:
  "x \<in> set xs \<Longrightarrow> f x = Inl e \<Longrightarrow> \<exists>e'. render_each f xs = Inl e' \<and> (\<exists>y \<in> set xs. f y = Inl e')"
proof (induction xs)
  case Nil
  then show ?case by simp
next
  case (Cons a xs)
  show ?case
  proof (cases "f a")
    case (Inl e')
    then show ?thesis by auto
  next
    case (Inr t)
    with Cons.prems have "x \<in> set xs" by auto
    from Cons.IH [OF this Cons.prems(2)] Inr show ?thesis by auto
  qed
qed

lemma render_each_length: "render_each f xs = Inr ts \<Longrightarrow> length ts = length xs"
  by (induction xs arbitrary: ts) (auto split: sum.splits)

lemma render_each_replicate: "f x = Inr t \<Longrightarrow> render_each f (replicate n x) = Inr (replicate n t)"
  by (induction n) simp_all

lemma handle_unexpected: "unexpected e \<Longrightarrow> handle (Inl e) = ''Unexpected error: '' @ exn_str e"
  by (cases e) (simp_all add: unexpected_def)

lemma description_text_unexpected: "description_text v = Inl e \<Longrightarrow> unexpected e"
  by (cases v) (auto simp: unexpected_def)

lemma agent_text_unexpected: "agent_text v = Inl e \<Longrightarrow> unexpected e"
  by (cases v)
     (auto simp: unexpected_def no_get_def Let_def split: sum.splits
           dest!: description_text_unexpected)

lemma artwork_text_unexpected: "artwork_text v = Inl e \<Longrightarrow> unexpected e"
  by (cases v)
     (auto simp: unexpected_def no_get_def Let_def split: sum.splits
           dest!: description_text_unexpected)

lemma py_min_unexpected: "py_min v b = Inl e \<Longrightarrow> unexpected e"
  by (cases v) (auto simp: unexpected_def)

lemma format_agent_response_raises:
  assumes "map_of data ''data'' = Some dv" and "r \<in> set (take 10 (as_list dv))"
    and "agent_text r = Inl e"
  shows "\<exists>e'. format_agent_response data = Inl e' \<and> unexpected e'"
proof -
  from render_each_raises [where f = agent_text, OF assms(2,3)] obtain e' y
    where e': "render_each agent_text (take 10 (as_list dv)) = Inl e'" and "agent_text y = Inl e'"
    by blast
  then have "unexpected e'" by (simp add: agent_text_unexpected)
  moreover from assms(2) have "as_list dv \<noteq> []" by auto
  ultimately show ?thesis
    using assms(1) e' by (simp add: format_agent_response_def)
qed

lemma format_artwork_response_raises:
  assumes "map_of data ''data'' = Some dv" and "r \<in> set (take 10 (as_list dv))"
    and "artwork_text r = Inl e"
  shows "\<exists>e'. format_artwork_response data = Inl e' \<and> unexpected e'"
proof -
  from render_each_raises [where f = artwork_text, OF assms(2,3)] obtain e' y
    where e': "render_each artwork_text (take 10 (as_list dv)) = Inl e'"
      and "artwork_text y = Inl e'"
    by blast
  then have "unexpected e'" by (simp add: artwork_text_unexpected)
  moreover from assms(2) have "as_list dv \<noteq> []" by auto
  ultimately show ?thesis
    using assms(1) e' by (simp add: format_artwork_response_def)
qed

lemma snd_fetch_json:
  "snd (fetch (\<lambda>_. Json data) endpoint params render) = render data"
  by (simp add: fetch_def make_api_request_def Let_def)

lemma limit_branch_unexpected:
  assumes "render data = Inl e" and "unexpected e"
  shows "\<exists>e'. snd (case py_min v MAX_RESULTS of
                     Inl e \<Rightarrow> ([], Inl e)
                   | Inr limit \<Rightarrow> fetch (\<lambda>_. Json data) endpoint (params limit) render)
              = Inl e' \<and> unexpected e'"
proof (cases "py_min v MAX_RESULTS")
  case (Inl e')
  then show ?thesis by (simp add: py_min_unexpected)
next
  case (Inr limit)
  with assms show ?thesis by (simp add: snd_fetch_json)
qed

lemma agent_null_description:
  "map_of agent ''description'' = Some JNull \<Longrightarrow>
   agent_text (JObj agent) = Inl (TypeError (quoted ''NoneType'' @ '' object is not subscriptable''))"
  by (simp add: dict_get_default_def)

lemma artwork_null_description:
  "map_of artwork ''description'' = Some JNull \<Longrightarrow>
   dict_get artwork ''short_description'' = JNull \<Longrightarrow>
   artwork_text (JObj artwork)
     = Inl (TypeError (quoted ''NoneType'' @ '' object is not subscriptable''))"
  by (simp add: dict_get_default_def)

lemma agent_tools_unexpected:
  assumes "format_agent_response data = Inl e" and "unexpected e"
  shows "\<exists>m. snd (call_tool (\<lambda>_. Json data) ''get_agent'' arguments) = ''Unexpected error: '' @ m"
    and "\<exists>m. snd (call_tool (\<lambda>_. Json data) ''search_agents'' arguments)
               = ''Unexpected error: '' @ m"
proof -
  show "\<exists>m. snd (call_tool (\<lambda>_. Json data) ''get_agent'' arguments) = ''Unexpected error: '' @ m"
    unfolding snd_call_tool body_get_agent snd_fetch_json assms(1)
    by (rule exI [of _ "exn_str e"]) (rule handle_unexpected [OF assms(2)])
  have "\<exists>e'. snd (call_tool_body (\<lambda>_. Json data) ''search_agents'' arguments) = Inl e'
              \<and> unexpected e'"
    unfolding body_search_agents
    by (rule limit_branch_unexpected [where render = format_agent_response, OF assms])
  then obtain e'
    where "snd (call_tool_body (\<lambda>_. Json data) ''search_agents'' arguments) = Inl e'"
      and "unexpected e'"
    by (elim exE conjE)
  then show "\<exists>m. snd (call_tool (\<lambda>_. Json data) ''search_agents'' arguments)
               = ''Unexpected error: '' @ m"
    unfolding snd_call_tool by (simp add: handle_unexpected)
qed

lemma artwork_tools_unexpected:
  assumes "format_artwork_response data = Inl e" and "unexpected e"
  shows "\<exists>m. snd (call_tool (\<lambda>_. Json data) ''get_artwork'' arguments)
               = ''Unexpected error: '' @ m"
    and "\<exists>m. snd (call_tool (\<lambda>_. Json data) ''search_artworks'' arguments)
               = ''Unexpected error: '' @ m"
proof -
  show "\<exists>m. snd (call_tool (\<lambda>_. Json data) ''get_artwork'' arguments)
               = ''Unexpected error: '' @ m"
    unfolding snd_call_tool body_get_artwork snd_fetch_json assms(1)
    by (rule exI [of _ "exn_str e"]) (rule handle_unexpected [OF assms(2)])
  have "\<exists>e'. snd (call_tool_body (\<lambda>_. Json data) ''search_artworks'' arguments) = Inl e'
              \<and> unexpected e'"
    unfolding body_search_artworks
    by (rule limit_branch_unexpected [where render = format_artwork_response, OF assms])
  then obtain e'
    where "snd (call_tool_body (\<lambda>_. Json data) ''search_artworks'' arguments) = Inl e'"
      and "unexpected e'"
    by (elim exE conjE)
  then show "\<exists>m. snd (call_tool (\<lambda>_. Json data) ''search_artworks'' arguments)
               = ''Unexpected error: '' @ m"
    unfolding snd_call_tool by (simp add: handle_unexpected)
qed


lemma agent_absent_description:
  assumes "map_of agent ''description'' = None"
  shows "\<exists>head. agent_text (JObj agent)
           = Inr (head @ ''Description: '' @ ''No description available'' @ nl)"
  by (rule exI [of _
        "nl @ ''**'' @ py_str (dict_get_default agent ''title'' (JStr ''Unknown'')) @ ''**'' @ nl
         @ ''ID: '' @ py_str (dict_get_default agent ''id'' (JStr ''Unknown'')) @ nl
         @ ''Birth: '' @ py_str (dict_get_default agent ''birth_date'' (JStr ''Unknown'')) @ nl
         @ ''Death: '' @ py_str (dict_get_default agent ''death_date'' (JStr ''Unknown'')) @ nl"])
     (simp add: assms Let_def dict_get_default_def)

lemma format_artwork_response_summary:
  assumes "map_of data ''data'' = Some (JList xs)" and "xs \<noteq> []"
    and "render_each artwork_text (take 10 xs) = Inr blocks"
    and "map_of data ''pagination'' = Some (JObj pagination)"
  shows "format_artwork_response data
           = Inr (join separator
               (blocks @
                [nl @ ''Showing '' @ str_int (int (length xs)) @ '' of ''
                 @ py_str (dict_get_default pagination ''total'' (JInt 0))
                 @ '' total results (Page ''
                 @ py_str (dict_get_default pagination ''current_page'' (JInt 1)) @ ''/''
                 @ py_str (dict_get_default pagination ''total_pages'' (JInt 1)) @ '')'']))"
  using assms by (simp add: format_artwork_response_def Let_def)






lemma limit_requests:
  assumes "(name, dflt) \<in> set limit_tools"
    and "requested_limit arguments dflt = Some n"
  shows "map (\<lambda>req. outbound req ''limit'') (fst (call_tool remote name arguments))
           = [Some (JInt (min n 100))]"
  using assms
proof (induction name dflt rule: limit_tools_cases [consumes 1])
  case 1
  then show ?case
    unfolding fst_call_tool body_search_artworks by (intro sent_limit) simp_all
next
  case 2
  then show ?case
    unfolding fst_call_tool body_search_agents by (intro sent_limit) simp_all
next
  case 3
  then show ?case
    unfolding fst_call_tool body_search_exhibitions by (intro sent_limit) simp_all
next
  case 4
  then show ?case
    unfolding fst_call_tool body_list_galleries by (intro sent_limit) simp_all
next
  case 5
  then show ?case
    unfolding fst_call_tool body_search_all by (intro sent_limit) simp_all
qed

lemma map_singleton:
  "map f xs = [y] \<Longrightarrow> (\<forall>x \<in> set xs. f x = y) \<and> length xs = 1"
  by (cases xs) auto

section \<open>The claims\<close>

subsection \<open>C1: the limit that is sent\<close>

text \<open>
  C1 as stated asks for a sent \<open>limit\<close> between 1 and 100 for every integer argument.
  \<open>call_tool\<close> only applies \<open>min(..., MAX_RESULTS)\<close>: an argument of 0 is sent as 0.
\<close>

theorem limit_zero_is_sent:
  "map (\<lambda>req. outbound req ''limit'')
     (fst (call_tool (\<lambda>_. Json []) ''search_artworks''
             [(''query'', JStr ''monet''), (''limit'', JInt 0)]))
   = [Some (JInt 0)]"
  by code_simp

text \<open>
  C1, amended: for each of the five tools that read \<open>limit\<close>, when the argument is an
  integer \<open>n\<close>, or absent so that \<open>n\<close> is the default of the tool (10 for the searches, 20
  for \<open>list_galleries\<close>), the \<open>limit\<close> of every request issued is \<open>min n 100\<close>: never above
  100, equal to \<open>n\<close> up to 100, and at least 1 whenever \<open>n\<close> is. When the arguments are
  \<open>printable\<close>, exactly one request is issued.
\<close>

theorem limit_capped:
  assumes "(name, dflt) \<in> set limit_tools"
    and "requested_limit arguments dflt = Some n"
  shows "(\<forall>req \<in> set (fst (call_tool remote name arguments)).
            outbound req ''limit'' = Some (JInt (min n 100)))
         \<and> ((\<forall>kv \<in> set arguments. printable (snd kv)) \<longrightarrow>
              length (fst (call_tool remote name arguments)) = 1)
         \<and> min n 100 \<le> 100 \<and> (n \<le> 100 \<longrightarrow> min n 100 = n) \<and> (1 \<le> n \<longrightarrow> 1 \<le> min n 100)"
  using map_singleton [OF limit_requests [OF assms, of remote]] by simp

theorem limit_capped_witness:
  "(''list_galleries'', 20) \<in> set limit_tools
   \<and> requested_limit [(''limit'', JInt 500)] 20 = Some 500
   \<and> printable (JInt 500)
   \<and> fst (call_tool (\<lambda>_. Json []) ''list_galleries'' [(''limit'', JInt 500)])
       = [\<lparr>req_url = ''https://api.artic.edu/api/v1/galleries'',
            req_params = Some [(''limit'', JInt 100), (''page'', JInt 1)]\<rparr>]
   \<and> outbound \<lparr>req_url = ''https://api.artic.edu/api/v1/galleries'',
                req_params = Some [(''limit'', JInt 100), (''page'', JInt 1)]\<rparr> ''limit''
       = Some (JInt (min 500 100))
   \<and> length (fst (call_tool (\<lambda>_. Json []) ''list_galleries'' [(''limit'', JInt 500)])) = 1"
proof -
  let ?arguments = "[(''limit'', JInt 500)]"
  let ?req = "\<lparr>req_url = ''https://api.artic.edu/api/v1/galleries'',
                req_params = Some [(''limit'', JInt 100), (''page'', JInt 1)]\<rparr>"
  have t: "(''list_galleries'', 20) \<in> set limit_tools"
    by (simp add: limit_tools_def)
  have a: "requested_limit ?arguments 20 = Some 500"
    by (simp add: requested_limit_def)
  have p: "printable (JInt 500)"
    by (simp add: str_nat.simps)
  then have ps: "\<forall>kv \<in> set ?arguments. printable (snd kv)"
    by simp
  have reqs: "fst (call_tool (\<lambda>_. Json []) ''list_galleries'' ?arguments) = [?req]"
    by (simp add: fst_call_tool body_list_galleries fst_fetch fst_make_api_request
        dict_get_default_def MAX_RESULTS_def BASE_URL_def)
  then have mem: "?req \<in> set (fst (call_tool (\<lambda>_. Json []) ''list_galleries'' ?arguments))"
    by simp
  note c = limit_capped [OF t a, of "\<lambda>_. Json []"]
  from c [THEN conjunct1, rule_format, OF mem]
    c [THEN conjunct2, THEN conjunct1, THEN mp, OF ps] t a p reqs
  show ?thesis by (intro conjI)
qed

subsection \<open>C2: a search without \<open>query\<close>\<close>





subsection \<open>C3: the closing line of a rendered list\<close>

text \<open>
  C3 says that the count in the closing line is the number of blocks rendered. What
  \<open>format_artwork_response\<close> writes is the length of the whole \<open>data\<close> list, while it
  renders at most ten blocks: with a non-empty list \<open>xs\<close> of records whose first ten
  render, and a \<open>pagination\<close> dict, the reply is the blocks joined by the separator,
  closed by \<open>Showing {len(xs)} of {total} total results (Page {current}/{pages})\<close>, and
  the number of blocks is \<open>min 10 (length xs)\<close>. The two numbers agree up to ten records
  and differ beyond; \<open>search_all\<close> counts the rendered lines instead.
\<close>

theorem summary_counts_all_records:
  assumes "map_of data ''data'' = Some (JList xs)" and "xs \<noteq> []"
    and "render_each artwork_text (take 10 xs) = Inr blocks"
    and "map_of data ''pagination'' = Some (JObj pagination)"
  shows "format_artwork_response data
           = Inr (join separator
               (blocks @
                [nl @ ''Showing '' @ str_int (int (length xs)) @ '' of ''
                 @ py_str (dict_get_default pagination ''total'' (JInt 0))
                 @ '' total results (Page ''
                 @ py_str (dict_get_default pagination ''current_page'' (JInt 1)) @ ''/''
                 @ py_str (dict_get_default pagination ''total_pages'' (JInt 1)) @ '')'']))
         \<and> length blocks = min 10 (length xs)"
  using format_artwork_response_summary [OF assms] render_each_length [OF assms(3)]
  by (simp add: min_def)

text \<open>Eleven records: ten blocks, and a closing line that says eleven.\<close>

theorem summary_counts_all_records_witness:
  "format_artwork_response
     [(''data'', JList (replicate 11 (JObj []))),
      (''pagination'', JObj [(''total'', JInt 37), (''limit'', JInt 11),
                             (''current_page'', JInt 1), (''total_pages'', JInt 4)])]
   = Inr (join separator
       (replicate 10
          (nl @ ''**Untitled**'' @ nl @ ''ID: Unknown'' @ nl @ ''Artist: Unknown artist'' @ nl
           @ ''Date: Unknown date'' @ nl @ ''Medium: Unknown medium'' @ nl
           @ ''Origin: Unknown origin'' @ nl @ ''Description: No description available'' @ nl)
        @ [nl @ ''Showing 11 of 37 total results (Page 1/4)'']))"
proof -
  let ?pagination = "[(''total'', JInt 37), (''limit'', JInt 11),
                      (''current_page'', JInt 1), (''total_pages'', JInt 4)]"
  let ?data = "[(''data'', JList (replicate 11 (JObj []))), (''pagination'', JObj ?pagination)]"
  let ?block = "nl @ ''**Untitled**'' @ nl @ ''ID: Unknown'' @ nl @ ''Artist: Unknown artist''
           @ nl @ ''Date: Unknown date'' @ nl @ ''Medium: Unknown medium'' @ nl
           @ ''Origin: Unknown origin'' @ nl @ ''Description: No description available'' @ nl"
  have d: "map_of ?data ''data'' = Some (JList (replicate 11 (JObj [])))"
    by simp
  have ne: "replicate 11 (JObj []) \<noteq> []"
    by simp
  have one: "artwork_text (JObj []) = Inr ?block"
    by (simp add: dict_get_def dict_get_default_def)
  have blocks: "render_each artwork_text (take 10 (replicate 11 (JObj [])))
                  = Inr (replicate 10 ?block)"
    using render_each_replicate [where f = artwork_text and n = 10, OF one] by simp
  have p: "map_of ?data ''pagination'' = Some (JObj ?pagination)"
    by simp
  have texts: "str_int (int (length (replicate 11 (JObj [])))) = ''11''"
    "py_str (dict_get_default ?pagination ''total'' (JInt 0)) = ''37''"
    "py_str (dict_get_default ?pagination ''current_page'' (JInt 1)) = ''1''"
    "py_str (dict_get_default ?pagination ''total_pages'' (JInt 1)) = ''4''"
    by (simp_all add: dict_get_default_def str_int_def str_nat.simps)
  from summary_counts_all_records [OF d ne blocks p, THEN conjunct1, unfolded texts]
  show ?thesis by simp
qed

subsection \<open>C4: no parameter is sent with a null value\<close>

text \<open>
  C4: whatever parameters \<open>make_api_request\<close> is given, no key of the parameters of the
  request it issues maps to \<open>None\<close>; and so for every request that \<open>call_tool\<close> issues,
  for every tool name and every argument dict.
\<close>

theorem null_parameters_dropped:
  "(\<forall>req \<in> set (fst (make_api_request remote endpoint params)). no_null_params req)
   \<and> (\<forall>req \<in> set (fst (call_tool remote name arguments)). no_null_params req)"
  using make_api_request_no_null call_tool_body_no_null
  by (simp add: fst_call_tool)

theorem null_parameters_dropped_witness:
  "\<lparr>req_url = ''https://api.artic.edu/api/v1/artworks/search'',
     req_params = Some [(''limit'', JInt 10), (''page'', JInt 1)]\<rparr>
     \<in> set (fst (make_api_request (\<lambda>_. Json []) ''artworks/search''
               (Some [(''q'', JNull), (''limit'', JInt 10), (''page'', JInt 1),
                      (''fields'', JNull)])))
   \<and> \<lparr>req_url = ''https://api.artic.edu/api/v1/artworks/search'',
       req_params = Some [(''limit'', JInt 10), (''page'', JInt 1)]\<rparr>
     \<in> set (fst (call_tool (\<lambda>_. Json []) ''search_artworks'' []))
   \<and> no_null_params
       \<lparr>req_url = ''https://api.artic.edu/api/v1/artworks/search'',
         req_params = Some [(''limit'', JInt 10), (''page'', JInt 1)]\<rparr>"
proof -
  let ?req = "\<lparr>req_url = ''https://api.artic.edu/api/v1/artworks/search'',
     req_params = Some [(''limit'', JInt 10), (''page'', JInt 1)]\<rparr>"
  have a: "?req \<in> set (fst (make_api_request (\<lambda>_. Json []) ''artworks/search''
               (Some [(''q'', JNull), (''limit'', JInt 10), (''page'', JInt 1),
                      (''fields'', JNull)])))"
    by code_simp
  have b: "?req \<in> set (fst (call_tool (\<lambda>_. Json []) ''search_artworks'' []))"
    by code_simp
  from null_parameters_dropped [of "\<lambda>_. Json []" "''artworks/search''"
      "Some [(''q'', JNull), (''limit'', JInt 10), (''page'', JInt 1), (''fields'', JNull)]"
      "''search_artworks''" "[]"] a b
  show ?thesis by blast
qed

subsection \<open>C5: every invocation ends with a text\<close>

text \<open>
  C5: whatever the \<open>try\<close> block of \<open>call_tool\<close> ends with, the reply is a text: the
  rendered text itself, \<open>Error: \<close> and the message for an \<open>AICAPIError\<close>, and
  \<open>Unexpected error: \<close> and the message for any other exception. Each failure of the
  remote side reaches the caller of \<open>get_artwork\<close> as such a text; for a status error
  404 the text holds the code 404 and the body.
\<close>

theorem dispatch_never_fails:
  "snd (call_tool remote name arguments) =
     (case snd (call_tool_body remote name arguments) of
        Inr response_text \<Rightarrow> response_text
      | Inl e \<Rightarrow> (case e of
                   AICAPIError m \<Rightarrow> ''Error: '' @ m
                 | TypeError m \<Rightarrow> ''Unexpected error: '' @ m
                 | AttributeError m \<Rightarrow> ''Unexpected error: '' @ m
                 | OtherException m \<Rightarrow> ''Unexpected error: '' @ m))
   \<and> snd (call_tool (\<lambda>_. HTTPStatusError code body) ''get_artwork'' arguments)
       = ''Error: API request failed: '' @ str_int code @ '' - '' @ body
   \<and> snd (call_tool (\<lambda>_. HTTPStatusError 404 body) ''get_artwork'' arguments)
       = ''Error: API request failed: 404 - '' @ body
   \<and> snd (call_tool (\<lambda>_. RequestError m) ''get_artwork'' arguments)
       = ''Error: Failed to connect to API: '' @ m
   \<and> snd (call_tool (\<lambda>_. OtherFailure m) ''get_artwork'' arguments)
       = ''Error: Unexpected error: '' @ m"
  unfolding snd_call_tool handle_cases [symmetric] body_get_artwork snd_fetch snd_make_api_request
  by (simp add: str_int_404)

theorem dispatch_never_fails_witness:
  "call_tool (\<lambda>_. HTTPStatusError 404 ''not found'') ''get_artwork''
       [(''artwork_id'', JInt 999999)]
     = ([\<lparr>req_url = ''https://api.artic.edu/api/v1/artworks/999999'', req_params = None\<rparr>],
        ''Error: API request failed: 404 - not found'')"
proof -
  have "fst (call_tool (\<lambda>_. HTTPStatusError 404 ''not found'') ''get_artwork''
          [(''artwork_id'', JInt 999999)])
        = [\<lparr>req_url = ''https://api.artic.edu/api/v1/artworks/999999'', req_params = None\<rparr>]"
    by (simp add: fst_call_tool body_get_artwork fst_fetch fst_make_api_request dict_get_def
        BASE_URL_def str_int_def str_nat.simps)
  moreover
  have "snd (call_tool (\<lambda>_. HTTPStatusError 404 ''not found'') ''get_artwork''
          [(''artwork_id'', JInt 999999)])
        = ''Error: API request failed: 404 - '' @ ''not found''"
    by (rule dispatch_never_fails [THEN conjunct2, THEN conjunct2, THEN conjunct1])
  ultimately show ?thesis by (simp add: prod_eq_iff)
qed

subsection \<open>C6: descriptions are cut at 300 characters\<close>

text \<open>
  C6: for a description that is a string \<open>s\<close>, the text rendered after \<open>Description: \<close>
  is \<open>s\<close> itself when \<open>s\<close> has at most 300 characters, and otherwise its first 300
  characters followed by \<open>...\<close>; so the ellipsis is appended exactly when \<open>s\<close> is longer
  than 300. This holds for the description fragment and for the blocks of the three
  renderers that show a description (artwork, agent, exhibition).
\<close>

theorem description_truncated:
  "description_text (JStr s) = Inr (shown_description s)
   \<and> (length s \<le> 300 \<longrightarrow> shown_description s = s)
   \<and> (300 < length s \<longrightarrow>
        shown_description s = take 300 s @ ''...'' \<and> length (take 300 s) = 300)
   \<and> ((if truthy (dict_get artwork ''short_description'')
         then dict_get artwork ''short_description''
         else dict_get_default artwork ''description'' (JStr ''No description available''))
        = JStr s \<longrightarrow>
        (\<exists>head tail. artwork_text (JObj artwork)
           = Inr (head @ ''Description: '' @ shown_description s @ nl @ tail)))
   \<and> (dict_get_default agent ''description'' (JStr ''No description available'') = JStr s \<longrightarrow>
        (\<exists>head. agent_text (JObj agent)
           = Inr (head @ ''Description: '' @ shown_description s @ nl)))
   \<and> (dict_get_default exhibition ''short_description'' (JStr ''No description available'')
        = JStr s \<longrightarrow>
        (\<exists>head tail. exhibition_text (JObj exhibition)
           = Inr (head @ ''Description: '' @ shown_description s @ nl @ tail)))"
proof (intro conjI impI)
  show "description_text (JStr s) = Inr (shown_description s)"
    by (rule description_text_str)
  show "shown_description s = s" if "length s \<le> 300"
    using that by (simp add: shown_description_def)
  show "shown_description s = take 300 s @ ''...''" if "300 < length s"
    using that by (simp add: shown_description_def)
  show "length (take 300 s) = 300" if "300 < length s"
    using that by simp
qed (erule artwork_text_description agent_text_description exhibition_text_description)+

theorem description_truncated_witness:
  "description_text (JStr (replicate 301 CHR ''a'')) = Inr (replicate 300 CHR ''a'' @ ''...'')
   \<and> description_text (JStr ''Water Lilies'') = Inr ''Water Lilies''
   \<and> dict_get_default [(''description'', JStr (replicate 301 CHR ''a''))] ''description''
        (JStr ''No description available'') = JStr (replicate 301 CHR ''a'')
   \<and> (\<exists>head. agent_text (JObj [(''description'', JStr (replicate 301 CHR ''a''))])
          = Inr (head @ ''Description: '' @ replicate 300 CHR ''a'' @ ''...'' @ nl))"
proof -
  have long: "shown_description (replicate 301 CHR ''a'') = replicate 300 CHR ''a'' @ ''...''"
    using description_truncated [of "replicate 301 CHR ''a''", THEN conjunct2, THEN conjunct2,
        THEN conjunct1]
    by simp
  have short: "shown_description ''Water Lilies'' = ''Water Lilies''"
    using description_truncated [of "''Water Lilies''", THEN conjunct2, THEN conjunct1]
    by simp
  have get: "dict_get_default [(''description'', JStr (replicate 301 CHR ''a''))] ''description''
        (JStr ''No description available'') = JStr (replicate 301 CHR ''a'')"
    by (simp add: dict_get_default_def)
  note t = description_truncated [where s = "replicate 301 CHR ''a''"
      and agent = "[(''description'', JStr (replicate 301 CHR ''a''))]"]
  from t [THEN conjunct1] long
  have a: "description_text (JStr (replicate 301 CHR ''a''))
             = Inr (replicate 300 CHR ''a'' @ ''...'')"
    by (simp only:)
  from description_truncated [of "''Water Lilies''", THEN conjunct1] short
  have b: "description_text (JStr ''Water Lilies'') = Inr ''Water Lilies''"
    by (simp only:)
  from t [THEN conjunct2, THEN conjunct2, THEN conjunct2, THEN conjunct2, THEN conjunct1,
      rule_format, OF get] long
  have c: "\<exists>head. agent_text (JObj [(''description'', JStr (replicate 301 CHR ''a''))])
          = Inr (head @ ''Description: '' @ replicate 300 CHR ''a'' @ ''...'' @ nl)"
    by (simp only: append_assoc)
  from a b get c show ?thesis by (intro conjI)
qed

subsection \<open>C7: replies without records\<close>

text \<open>
  C7: when the reply has no \<open>data\<close> key, and when \<open>data\<close> is the empty list, each of the
  five renderers returns a fixed text of its kind, as a value and not as an exception,
  whatever else the reply holds (nothing else is read). The four entity renderers use one
  text for the absent key and another for the empty list.
\<close>

theorem no_results_messages:
  "(map_of data ''data'' = None \<longrightarrow>
      format_artwork_response data = Inr ''No artwork data found.''
      \<and> format_agent_response data = Inr ''No agent data found.''
      \<and> format_exhibition_response data = Inr ''No exhibition data found.''
      \<and> format_gallery_response data = Inr ''No gallery data found.''
      \<and> format_mixed_response data limit = Inr ''No results found.'')
   \<and> (map_of data ''data'' = Some (JList []) \<longrightarrow>
      format_artwork_response data = Inr ''No artworks found.''
      \<and> format_agent_response data = Inr ''No agents found.''
      \<and> format_exhibition_response data = Inr ''No exhibitions found.''
      \<and> format_gallery_response data = Inr ''No galleries found.''
      \<and> format_mixed_response data limit = Inr ''No results found.'')"
  by (simp add: format_artwork_response_def format_agent_response_def
      format_exhibition_response_def format_gallery_response_def format_mixed_response_def
      dict_get_def)

theorem no_results_messages_witness:
  "map_of [(''pagination'', JInt 7)] ''data'' = None
   \<and> format_artwork_response [(''pagination'', JInt 7)] = Inr ''No artwork data found.''
   \<and> format_gallery_response [(''pagination'', JInt 7)] = Inr ''No gallery data found.''
   \<and> map_of [(''data'', JList []), (''pagination'', JInt 7)] ''data'' = Some (JList [])
   \<and> format_agent_response [(''data'', JList []), (''pagination'', JInt 7)]
       = Inr ''No agents found.''
   \<and> format_mixed_response [(''data'', JList []), (''pagination'', JInt 7)] (JInt 10)
       = Inr ''No results found.''"
proof -
  have a: "map_of [(''pagination'', JInt 7)] ''data'' = None"
    by simp
  have b: "map_of [(''data'', JList []), (''pagination'', JInt 7)] ''data'' = Some (JList [])"
    by simp
  from no_results_messages [of "[(''pagination'', JInt 7)]" "JInt 10"] a
  have "format_artwork_response [(''pagination'', JInt 7)] = Inr ''No artwork data found.''"
    and "format_gallery_response [(''pagination'', JInt 7)] = Inr ''No gallery data found.''"
    by blast+
  moreover
  from no_results_messages [of "[(''data'', JList []), (''pagination'', JInt 7)]" "JInt 10"] b
  have "format_agent_response [(''data'', JList []), (''pagination'', JInt 7)]
          = Inr ''No agents found.''"
    and "format_mixed_response [(''data'', JList []), (''pagination'', JInt 7)] (JInt 10)
          = Inr ''No results found.''"
    by blast+
  ultimately show ?thesis using a b by blast
qed

subsection \<open>C8: the links of an artwork\<close>

text \<open>
  C8 as stated promises the web link whenever the record has an id, and the image link
  whenever it has an image identifier. The guards of \<open>format_artwork_response\<close> test
  the truth value: an id of 0 and an empty image identifier are present and yield no link.
\<close>

theorem artwork_id_zero_has_no_link:
  "artwork_text (JObj [(''image_id'', JStr []), (''id'', JInt 0)])
     = Inr (nl @ ''**Untitled**'' @ nl @ ''ID: 0'' @ nl @ ''Artist: Unknown artist'' @ nl
            @ ''Date: Unknown date'' @ nl @ ''Medium: Unknown medium'' @ nl
            @ ''Origin: Unknown origin'' @ nl @ ''Description: No description available'' @ nl)"
  by (simp add: dict_get_def dict_get_default_def str_int_def str_nat.simps)

text \<open>
  C8, amended: for every artwork record that renders to a block, if \<open>image_id\<close> is
  truthy (not null, not empty) the block has the line \<open>Image: \<close> with the identifier
  substituted into \<open>https://www.artic.edu/iiif/2/{image_id}/full/843,/0/default.jpg\<close>, and
  if \<open>id\<close> is truthy (not null, not 0) the block ends with the line \<open>View online: \<close>
  with the id substituted into \<open>https://www.artic.edu/artworks/{id}\<close>. The witness is
  the record with \<open>image_id\<close> abc123 and \<open>id\<close> 42.
\<close>

theorem artwork_links:
  assumes "artwork_text (JObj artwork) = Inr block"
  shows "(truthy (dict_get artwork ''image_id'') \<longrightarrow>
            (\<exists>head tail. block = head @ ''Image: '' @ ''https://www.artic.edu/iiif/2/''
                 @ py_str (dict_get artwork ''image_id'') @ ''/full/843,/0/default.jpg'' @ nl
                 @ tail))
         \<and> (truthy (dict_get artwork ''id'') \<longrightarrow>
            (\<exists>head. block = head @ ''View online: '' @ ''https://www.artic.edu/artworks/''
                 @ py_str (dict_get artwork ''id'') @ nl))"
proof -
  let ?img = "if truthy (dict_get artwork ''image_id'')
              then ''Image: '' @ ''https://www.artic.edu/iiif/2/''
                   @ py_str (dict_get artwork ''image_id'') @ ''/full/843,/0/default.jpg'' @ nl
              else []"
  let ?web = "if truthy (dict_get artwork ''id'')
              then ''View online: '' @ ''https://www.artic.edu/artworks/''
                   @ py_str (dict_get artwork ''id'') @ nl
              else []"
  let ?description = "if truthy (dict_get artwork ''short_description'')
                      then dict_get artwork ''short_description''
                      else dict_get_default artwork ''description''
                             (JStr ''No description available'')"
  let ?base = "\<lambda>d. nl @ ''**'' @ py_str (dict_get_default artwork ''title'' (JStr ''Untitled''))
         @ ''**'' @ nl
         @ ''ID: '' @ py_str (dict_get_default artwork ''id'' (JStr ''Unknown'')) @ nl
         @ ''Artist: ''
         @ py_str (dict_get_default artwork ''artist_display'' (JStr ''Unknown artist'')) @ nl
         @ ''Date: '' @ py_str (dict_get_default artwork ''date_display'' (JStr ''Unknown date''))
         @ nl
         @ ''Medium: ''
         @ py_str (dict_get_default artwork ''medium_display'' (JStr ''Unknown medium'')) @ nl
         @ ''Origin: ''
         @ py_str (dict_get_default artwork ''place_of_origin'' (JStr ''Unknown origin'')) @ nl
         @ ''Description: '' @ d @ nl"
  have "\<exists>d. block = ?base d @ ?img @ ?web"
  proof (cases "description_text ?description")
    case (Inl e)
    with assms show ?thesis by (simp add: Let_def)
  next
    case (Inr d)
    with assms have eq: "block = ?base d @ ?img @ ?web" by (simp add: Let_def)
    show ?thesis by (rule exI [of _ d]) (rule eq)
  qed
  then obtain d where block: "block = ?base d @ ?img @ ?web" ..
  show ?thesis
  proof (intro conjI impI)
    assume "truthy (dict_get artwork ''image_id'')"
    with block have eq: "block = ?base d @ ''Image: '' @ ''https://www.artic.edu/iiif/2/''
                 @ py_str (dict_get artwork ''image_id'') @ ''/full/843,/0/default.jpg'' @ nl
                 @ ?web"
      by simp
    show "\<exists>head tail. block = head @ ''Image: '' @ ''https://www.artic.edu/iiif/2/''
                 @ py_str (dict_get artwork ''image_id'') @ ''/full/843,/0/default.jpg'' @ nl
                 @ tail"
      by (rule exI [of _ "?base d"], rule exI [of _ ?web]) (rule eq)
  next
    assume "truthy (dict_get artwork ''id'')"
    with block have eq: "block = (?base d @ ?img) @ ''View online: ''
                 @ ''https://www.artic.edu/artworks/'' @ py_str (dict_get artwork ''id'') @ nl"
      by simp
    show "\<exists>head. block = head @ ''View online: '' @ ''https://www.artic.edu/artworks/''
                 @ py_str (dict_get artwork ''id'') @ nl"
      by (rule exI [of _ "?base d @ ?img"]) (rule eq)
  qed
qed


theorem artwork_links_witness:
  "artwork_text (JObj [(''image_id'', JStr ''abc123''), (''id'', JInt 42)])
     = Inr (nl @ ''**Untitled**'' @ nl @ ''ID: 42'' @ nl @ ''Artist: Unknown artist'' @ nl
            @ ''Date: Unknown date'' @ nl @ ''Medium: Unknown medium'' @ nl
            @ ''Origin: Unknown origin'' @ nl @ ''Description: No description available'' @ nl
            @ ''Image: https://www.artic.edu/iiif/2/abc123/full/843,/0/default.jpg'' @ nl
            @ ''View online: https://www.artic.edu/artworks/42'' @ nl)
   \<and> truthy (dict_get [(''image_id'', JStr ''abc123''), (''id'', JInt 42)] ''image_id'')
   \<and> truthy (dict_get [(''image_id'', JStr ''abc123''), (''id'', JInt 42)] ''id'')
   \<and> (\<exists>head tail.
         nl @ ''**Untitled**'' @ nl @ ''ID: 42'' @ nl @ ''Artist: Unknown artist'' @ nl
         @ ''Date: Unknown date'' @ nl @ ''Medium: Unknown medium'' @ nl
         @ ''Origin: Unknown origin'' @ nl @ ''Description: No description available'' @ nl
         @ ''Image: https://www.artic.edu/iiif/2/abc123/full/843,/0/default.jpg'' @ nl
         @ ''View online: https://www.artic.edu/artworks/42'' @ nl
         = head @ ''Image: '' @ ''https://www.artic.edu/iiif/2/'' @ ''abc123''
           @ ''/full/843,/0/default.jpg'' @ nl @ tail)
   \<and> (\<exists>head.
         nl @ ''**Untitled**'' @ nl @ ''ID: 42'' @ nl @ ''Artist: Unknown artist'' @ nl
         @ ''Date: Unknown date'' @ nl @ ''Medium: Unknown medium'' @ nl
         @ ''Origin: Unknown origin'' @ nl @ ''Description: No description available'' @ nl
         @ ''Image: https://www.artic.edu/iiif/2/abc123/full/843,/0/default.jpg'' @ nl
         @ ''View online: https://www.artic.edu/artworks/42'' @ nl
         = head @ ''View online: '' @ ''https://www.artic.edu/artworks/'' @ ''42'' @ nl)"
proof -
  let ?artwork = "[(''image_id'', JStr ''abc123''), (''id'', JInt 42)]"
  let ?block = "nl @ ''**Untitled**'' @ nl @ ''ID: 42'' @ nl @ ''Artist: Unknown artist'' @ nl
         @ ''Date: Unknown date'' @ nl @ ''Medium: Unknown medium'' @ nl
         @ ''Origin: Unknown origin'' @ nl @ ''Description: No description available'' @ nl
         @ ''Image: https://www.artic.edu/iiif/2/abc123/full/843,/0/default.jpg'' @ nl
         @ ''View online: https://www.artic.edu/artworks/42'' @ nl"
  have block: "artwork_text (JObj ?artwork) = Inr ?block"
    by (simp add: dict_get_def dict_get_default_def str_int_def str_nat.simps)
  have image_id: "truthy (dict_get ?artwork ''image_id'')"
    and id: "truthy (dict_get ?artwork ''id'')"
    by (simp_all add: dict_get_def)
  have str: "py_str (dict_get ?artwork ''image_id'') = ''abc123''"
    "py_str (dict_get ?artwork ''id'') = ''42''"
    by (simp_all add: dict_get_def str_int_def str_nat.simps)
  note links = artwork_links [OF block, unfolded str]
  from links [THEN conjunct1, rule_format, OF image_id]
    links [THEN conjunct2, rule_format, OF id] block image_id id
  show ?thesis by (intro conjI)
qed

subsection \<open>C9: unknown tool names\<close>

text \<open>
  C9: for a name that is none of the nine tool names, and any arguments, \<open>call_tool\<close>
  issues no request and replies with the text \<open>Unknown tool: \<close> followed by the name.
\<close>

theorem unknown_tool:
  "name \<notin> set tool_names \<Longrightarrow>
   call_tool remote name arguments = ([], ''Unknown tool: '' @ name)"
  by (simp add: call_tool_def body_unknown)

theorem unknown_tool_witness:
  "''get_painting'' \<notin> set tool_names \<and>
   call_tool (\<lambda>_. OtherFailure []) ''get_painting'' [(''id'', JInt 1)]
     = ([], ''Unknown tool: get_painting'')"
  using unknown_tool [of "''get_painting''" "\<lambda>_. OtherFailure []" "[(''id'', JInt 1)]"]
  by (simp add: tool_names_def)

subsection \<open>C10: a description that is null\<close>

text \<open>
  C10: the default \<open>No description available\<close> is substituted when the \<open>description\<close> key
  of an agent is absent. When the key is present with the value null, rendering the agent
  raises \<open>TypeError\<close>; if such a record is among the first ten of the reply (or is the
  reply's single record), \<open>get_agent\<close> and \<open>search_agents\<close> reply with a text that starts
  with \<open>Unexpected error: \<close>, and for the single record the text is exactly that prefix
  and the message of the \<open>TypeError\<close>. The same holds for an artwork whose
  \<open>description\<close> is null and whose \<open>short_description\<close> is null or absent, with
  \<open>get_artwork\<close> and \<open>search_artworks\<close>.
\<close>

theorem null_description_raises:
  "(map_of agent ''description'' = None \<longrightarrow>
      (\<exists>head. agent_text (JObj agent)
         = Inr (head @ ''Description: '' @ ''No description available'' @ nl)))
   \<and> (map_of agent ''description'' = Some JNull \<longrightarrow>
      agent_text (JObj agent)
        = Inl (TypeError (quoted ''NoneType'' @ '' object is not subscriptable''))
      \<and> (map_of data ''data'' = Some dv \<and> JObj agent \<in> set (take 10 (as_list dv)) \<longrightarrow>
           (\<exists>m. snd (call_tool (\<lambda>_. Json data) ''get_agent'' arguments)
                  = ''Unexpected error: '' @ m)
           \<and> (\<exists>m. snd (call_tool (\<lambda>_. Json data) ''search_agents'' arguments)
                  = ''Unexpected error: '' @ m))
      \<and> (map_of data ''data'' = Some (JObj agent) \<longrightarrow>
           snd (call_tool (\<lambda>_. Json data) ''get_agent'' arguments)
             = ''Unexpected error: '' @ quoted ''NoneType'' @ '' object is not subscriptable''))
   \<and> (map_of artwork ''description'' = Some JNull
        \<and> dict_get artwork ''short_description'' = JNull \<longrightarrow>
      artwork_text (JObj artwork)
        = Inl (TypeError (quoted ''NoneType'' @ '' object is not subscriptable''))
      \<and> (map_of data ''data'' = Some dv \<and> JObj artwork \<in> set (take 10 (as_list dv)) \<longrightarrow>
           (\<exists>m. snd (call_tool (\<lambda>_. Json data) ''get_artwork'' arguments)
                  = ''Unexpected error: '' @ m)
           \<and> (\<exists>m. snd (call_tool (\<lambda>_. Json data) ''search_artworks'' arguments)
                  = ''Unexpected error: '' @ m))
      \<and> (map_of data ''data'' = Some (JObj artwork) \<longrightarrow>
           snd (call_tool (\<lambda>_. Json data) ''get_artwork'' arguments)
             = ''Unexpected error: '' @ quoted ''NoneType'' @ '' object is not subscriptable''))"
proof (intro conjI impI; (elim conjE)?)
  show "\<exists>head. agent_text (JObj agent)
          = Inr (head @ ''Description: '' @ ''No description available'' @ nl)"
    if "map_of agent ''description'' = None"
    using that by (rule agent_absent_description)
next
  assume null: "map_of agent ''description'' = Some JNull"
  show raises: "agent_text (JObj agent)
          = Inl (TypeError (quoted ''NoneType'' @ '' object is not subscriptable''))"
    using null by (rule agent_null_description)
  {
    assume "map_of data ''data'' = Some dv" and "JObj agent \<in> set (take 10 (as_list dv))"
    from format_agent_response_raises [OF this raises]
    obtain e where e: "format_agent_response data = Inl e" "unexpected e"
      by blast
    show "\<exists>m. snd (call_tool (\<lambda>_. Json data) ''get_agent'' arguments)
               = ''Unexpected error: '' @ m"
      by (rule agent_tools_unexpected(1) [OF e])
    show "\<exists>m. snd (call_tool (\<lambda>_. Json data) ''search_agents'' arguments)
               = ''Unexpected error: '' @ m"
      by (rule agent_tools_unexpected(2) [OF e])
  }
  show "snd (call_tool (\<lambda>_. Json data) ''get_agent'' arguments)
          = ''Unexpected error: '' @ quoted ''NoneType'' @ '' object is not subscriptable''"
    if "map_of data ''data'' = Some (JObj agent)"
    unfolding snd_call_tool body_get_agent snd_fetch_json
    using that raises by (simp add: format_agent_response_def)
next
  assume null: "map_of artwork ''description'' = Some JNull"
    and short: "dict_get artwork ''short_description'' = JNull"
  show raises: "artwork_text (JObj artwork)
          = Inl (TypeError (quoted ''NoneType'' @ '' object is not subscriptable''))"
    using null short by (rule artwork_null_description)
  {
    assume "map_of data ''data'' = Some dv" and "JObj artwork \<in> set (take 10 (as_list dv))"
    from format_artwork_response_raises [OF this raises]
    obtain e where e: "format_artwork_response data = Inl e" "unexpected e"
      by blast
    show "\<exists>m. snd (call_tool (\<lambda>_. Json data) ''get_artwork'' arguments)
               = ''Unexpected error: '' @ m"
      by (rule artwork_tools_unexpected(1) [OF e])
    show "\<exists>m. snd (call_tool (\<lambda>_. Json data) ''search_artworks'' arguments)
               = ''Unexpected error: '' @ m"
      by (rule artwork_tools_unexpected(2) [OF e])
  }
  show "snd (call_tool (\<lambda>_. Json data) ''get_artwork'' arguments)
          = ''Unexpected error: '' @ quoted ''NoneType'' @ '' object is not subscriptable''"
    if "map_of data ''data'' = Some (JObj artwork)"
    unfolding snd_call_tool body_get_artwork snd_fetch_json
    using that raises by (simp add: format_artwork_response_def)
qed


theorem null_description_raises_witness:
  "map_of [(''title'', JStr ''Claude Monet''), (''description'', JNull)] ''description''
     = Some JNull
   \<and> agent_text (JObj [(''title'', JStr ''Claude Monet''), (''description'', JNull)])
       = Inl (TypeError (quoted ''NoneType'' @ '' object is not subscriptable''))
   \<and> map_of [(''data'', JObj [(''title'', JStr ''Claude Monet''), (''description'', JNull)])]
         ''data''
       = Some (JObj [(''title'', JStr ''Claude Monet''), (''description'', JNull)])
   \<and> snd (call_tool
             (\<lambda>_. Json [(''data'',
                           JObj [(''title'', JStr ''Claude Monet''), (''description'', JNull)])])
             ''get_agent'' [(''agent_id'', JInt 35809)])
       = ''Unexpected error: '' @ quoted ''NoneType'' @ '' object is not subscriptable''"
proof -
  let ?agent = "[(''title'', JStr ''Claude Monet''), (''description'', JNull)]"
  let ?data = "[(''data'', JObj ?agent)]"
  have null: "map_of ?agent ''description'' = Some JNull"
    by simp
  have data: "map_of ?data ''data'' = Some (JObj ?agent)"
    by simp
  note t = null_description_raises [where agent = ?agent and data = ?data
      and arguments = "[(''agent_id'', JInt 35809)]",
      THEN conjunct2, THEN conjunct1, rule_format, OF null]
  from t [THEN conjunct1] t [THEN conjunct2, THEN conjunct2, rule_format, OF data] null data
  show ?thesis by (intro conjI)
qed

end
